(* ===== verification/Json.thy ===== *)
theory Json
  imports Prelude
begin

text \<open>
  The canonical encoding of the ledger is \<^verbatim>\<open>JSON.stringify\<close>, called by
  \<^verbatim>\<open>Transaction.toString\<close> and by the \<^verbatim>\<open>Block.hash\<close> getter
  (src/index.ts). This theory models the part of it those calls reach: string quoting
  (ECMAScript QuoteJSONString: the short escapes, \<^verbatim>\<open>\u00XX\<close> with lowercase hex for the
  other control characters, every other character copied), the number-to-string
  conversion of integer-valued numbers, and the serialisation of a plain object from
  its fields in insertion order. A character of HOL is one UTF-16 code unit below 256;
  numbers are the integers of magnitude below \<open>10\<^sup>21\<close>, which JavaScript prints in plain
  decimal. Beside the encoders it defines decoders (not code of the repository, but the
  inverse the proofs need) and proves the round trips.
\<close>

subsection \<open>Encoders\<close>

definition json_escape_char :: "char \<Rightarrow> string" where
  "json_escape_char c =
     (if c = CHR 0x08 then [bslash, CHR ''b'']
      else if c = CHR 0x09 then [bslash, CHR ''t'']
      else if c = CHR 0x0A then [bslash, CHR ''n'']
      else if c = CHR 0x0C then [bslash, CHR ''f'']
      else if c = CHR 0x0D then [bslash, CHR ''r'']
      else if c = dq then [bslash, dq]
      else if c = bslash then [bslash, bslash]
      else if (of_char c :: nat) < 0x20 then
        [bslash, CHR ''u'', CHR ''0'', CHR ''0'',
         hex_digit (of_char c div 16), hex_digit (of_char c mod 16)]
      else [c])"

definition json_quote :: "string \<Rightarrow> string" where
  "json_quote s = dq # concat (map json_escape_char s) @ [dq]"

fun nat_digits :: "nat \<Rightarrow> string" where
  "nat_digits n =
     (if n < 10 then [digit_char n] else nat_digits (n div 10) @ [digit_char (n mod 10)])"

declare nat_digits.simps [simp del]

definition js_number_to_string :: "int \<Rightarrow> string" where
  "js_number_to_string i =
     (if i < 0 then CHR ''-'' # nat_digits (nat (- i)) else nat_digits (nat i))"

definition json_member :: "string \<times> string \<Rightarrow> string" where
  "json_member kv = json_quote (fst kv) @ '':'' @ snd kv"

fun join_with :: "string \<Rightarrow> string list \<Rightarrow> string" where
  "join_with sep [] = []"
| "join_with sep [x] = x"
| "join_with sep (x # y # ys) = x @ sep @ join_with sep (y # ys)"

definition json_object :: "(string \<times> string) list \<Rightarrow> string" where
  "json_object fs = CHR ''{'' # join_with '','' (map json_member fs) @ ''}''"

subsection \<open>Decoders\<close>

abbreviation cons_fst :: "'a \<Rightarrow> ('a list \<times> 'b) option \<Rightarrow> ('a list \<times> 'b) option" where
  "cons_fst c r \<equiv> map_option (apfst (Cons c)) r"

definition unicode_ok :: "string \<Rightarrow> bool" where
  "unicode_ok u \<longleftrightarrow> length u = 4 \<and> u ! 0 = CHR ''0'' \<and> u ! 1 = CHR ''0''
     \<and> is_hex_digit (u ! 2) \<and> is_hex_digit (u ! 3)"

definition unicode_char :: "string \<Rightarrow> char" where
  "unicode_char u = char_of (16 * hex_val (u ! 2) + hex_val (u ! 3))"

fun json_str_body :: "string \<Rightarrow> (string \<times> string) option"
and json_esc :: "string \<Rightarrow> (string \<times> string) option" where
  "json_str_body [] = None"
| "json_str_body (c # cs) =
     (if c = dq then Some ([], cs)
      else if c = bslash then json_esc cs
      else cons_fst c (json_str_body cs))"
| "json_esc [] = None"
| "json_esc (d # cs) =
     (if d = CHR ''b'' then cons_fst (CHR 0x08) (json_str_body cs)
      else if d = CHR ''t'' then cons_fst (CHR 0x09) (json_str_body cs)
      else if d = CHR ''n'' then cons_fst (CHR 0x0A) (json_str_body cs)
      else if d = CHR ''f'' then cons_fst (CHR 0x0C) (json_str_body cs)
      else if d = CHR ''r'' then cons_fst (CHR 0x0D) (json_str_body cs)
      else if d = dq \<or> d = bslash then cons_fst d (json_str_body cs)
      else if d = CHR ''u'' \<and> unicode_ok (take 4 cs)
        then cons_fst (unicode_char (take 4 cs)) (json_str_body (drop 4 cs))
      else None)"

definition json_read_string :: "string \<Rightarrow> (string \<times> string) option" where
  "json_read_string s = (case s of c # cs \<Rightarrow> if c = dq then json_str_body cs else None | [] \<Rightarrow> None)"

fun read_digits :: "string \<Rightarrow> nat \<Rightarrow> nat \<times> string" where
  "read_digits [] acc = (acc, [])"
| "read_digits (c # cs) acc =
     (if is_digit c then read_digits cs (10 * acc + digit_val c) else (acc, c # cs))"

definition read_nat :: "string \<Rightarrow> (nat \<times> string) option" where
  "read_nat s = (case s of c # _ \<Rightarrow> if is_digit c then Some (read_digits s 0) else None | [] \<Rightarrow> None)"

definition read_int :: "string \<Rightarrow> (int \<times> string) option" where
  "read_int s =
     (case s of
        c # cs \<Rightarrow>
          if c = CHR ''-'' then map_option (\<lambda>(n, r). (- int n, r)) (read_nat cs)
          else map_option (\<lambda>(n, r). (int n, r)) (read_nat s)
      | [] \<Rightarrow> None)"

definition no_digit_start :: "string \<Rightarrow> bool" where
  "no_digit_start s \<longleftrightarrow> (case s of [] \<Rightarrow> True | c # _ \<Rightarrow> \<not> is_digit c)"

subsection \<open>Round trips\<close>

text \<open>
  Decoding the quoted string gives back the string and the text after it, whatever
  follows; decoding a number gives back the integer when the text after it does not
  start with a digit (in every object the encoder writes, a comma or a brace follows).
\<close>

lemma json_str_body_escape_char:
  "json_str_body (json_escape_char c @ r) = cons_fst c (json_str_body r)"
proof -
  have "(of_char c :: nat) < 0x20 \<Longrightarrow>
    unicode_ok [CHR ''0'', CHR ''0'', hex_digit (of_char c div 16), hex_digit (of_char c mod 16)] \<and>
    unicode_char [CHR ''0'', CHR ''0'', hex_digit (of_char c div 16), hex_digit (of_char c mod 16)] = c"
    by (simp add: unicode_ok_def unicode_char_def)
  then show ?thesis
    by (simp add: json_escape_char_def)
qed

lemma json_str_body_escaped:
  "json_str_body (concat (map json_escape_char s) @ dq # r) = Some (s, r)"
  by (induction s) (simp_all add: json_str_body_escape_char)

lemma json_read_string_quote [decode_simps]:
  "json_read_string (json_quote s @ r) = Some (s, r)"
  by (simp add: json_read_string_def json_quote_def json_str_body_escaped)

lemma nat_digits_digits: "\<forall>c \<in> set (nat_digits n). is_digit c"
  by (induction n rule: nat_digits.induct) (subst nat_digits.simps, simp)

lemma nat_digits_not_Nil: "nat_digits n \<noteq> []"
  by (subst nat_digits.simps) simp

lemma read_digits_append:
  "\<forall>c \<in> set xs. is_digit c \<Longrightarrow> no_digit_start r \<Longrightarrow>
   read_digits (xs @ r) acc = (foldl (\<lambda>a c. 10 * a + digit_val c) acc xs, r)"
  by (induction xs arbitrary: acc) (auto simp: no_digit_start_def split: list.splits)

lemma foldl_nat_digits: "foldl (\<lambda>a c. 10 * a + digit_val c) 0 (nat_digits n) = n"
proof (induction n rule: nat_digits.induct)
  case (1 n)
  show ?case
  proof (cases "n < 10")
    case True
    then show ?thesis by (subst nat_digits.simps) simp
  next
    case False
    with "1.IH" show ?thesis by (subst nat_digits.simps) simp
  qed
qed

lemma nat_digits_hd_digit: "\<exists>c cs. nat_digits n = c # cs \<and> is_digit c"
proof (cases "nat_digits n")
  case Nil
  then show ?thesis using nat_digits_not_Nil by simp
next
  case (Cons c cs)
  then show ?thesis using nat_digits_digits [of n] by simp
qed

lemma read_nat_digits:
  assumes r: "no_digit_start r"
  shows "read_nat (nat_digits n @ r) = Some (n, r)"
proof -
  have rd: "read_digits (nat_digits n @ r) 0 = (n, r)"
    using read_digits_append [OF nat_digits_digits [of n] r, of 0] foldl_nat_digits [of n] by simp
  obtain c cs where "nat_digits n = c # cs" and "is_digit c"
    using nat_digits_hd_digit by blast
  with rd show ?thesis by (simp add: read_nat_def)
qed

lemma read_int_number [decode_simps]:
  "no_digit_start r \<Longrightarrow> read_int (js_number_to_string i @ r) = Some (i, r)"
proof (cases "i < 0")
  case True
  assume r: "no_digit_start r"
  with True show ?thesis
    by (simp add: read_int_def js_number_to_string_def read_nat_digits)
next
  case False
  assume r: "no_digit_start r"
  obtain c cs where cs: "nat_digits (nat i) = c # cs" and d: "is_digit c"
    using nat_digits_hd_digit by blast
  have "c \<noteq> CHR ''-''" using d by (auto simp: is_digit_def)
  with False r cs show ?thesis
    using read_nat_digits [OF r, of "nat i"]
    by (simp add: read_int_def js_number_to_string_def)
qed

end
