(* ===== verification/Transaction.thy ===== *)
theory Transaction
  imports Json
begin

text \<open>
  The class \<^verbatim>\<open>Transaction\<close> of src/index.ts (lines 4--15): three public fields
  set by the constructor, and \<^verbatim>\<open>toString()\<close>, which is
  \<^verbatim>\<open>JSON.stringify(this)\<close>. The fields are own properties created in the order
  \<^verbatim>\<open>amount\<close>, \<^verbatim>\<open>payer\<close>, \<^verbatim>\<open>payee\<close>, so the canonical encoding is the
  object with these members in this order. The amount is a JavaScript number; the model
  takes the integer-valued amounts, negative and zero included (the constructor checks
  nothing). The decoder \<open>parse_tx\<close> is the inverse the proofs use: the encoding
  determines the transaction, so a signature over the encoding binds all three fields.
\<close>

record transaction =
  amount :: int
  payer :: string
  payee :: string

definition tx_fields :: "transaction \<Rightarrow> (string \<times> string) list" where
  "tx_fields t =
     [(''amount'', js_number_to_string (amount t)),
      (''payer'', json_quote (payer t)),
      (''payee'', json_quote (payee t))]"

definition tx_to_string :: "transaction \<Rightarrow> string" where
  "tx_to_string t = json_object (tx_fields t)"

definition parse_tx :: "string \<Rightarrow> (transaction \<times> string) option" where
  \<open>parse_tx s = do {
     r1 \<leftarrow> strip_prefix ''{"amount":'' s;
     (a, r2) \<leftarrow> read_int r1;
     r3 \<leftarrow> strip_prefix '',"payer":'' r2;
     (p, r4) \<leftarrow> json_read_string r3;
     r5 \<leftarrow> strip_prefix '',"payee":'' r4;
     (q, r6) \<leftarrow> json_read_string r5;
     r7 \<leftarrow> strip_prefix ''}'' r6;
     Some (\<lparr>amount = a, payer = p, payee = q\<rparr>, r7)
   }\<close>

lemma tx_to_string_eq [encode_defs]:
  \<open>tx_to_string t =
     ''{"amount":'' @ js_number_to_string (amount t) @ '',"payer":'' @ json_quote (payer t)
     @ '',"payee":'' @ json_quote (payee t) @ ''}''\<close>
  by (simp add: tx_to_string_def tx_fields_def json_object_def json_member_def
      json_quote_def json_escape_char_def)

lemma no_digit_start_comma [simp]: "no_digit_start (CHR '','' # s)"
  by (simp add: no_digit_start_def is_digit_def)

lemma parse_tx_to_string [decode_simps]: "parse_tx (tx_to_string t @ r) = Some (t, r)"
  by (simp add: parse_tx_def encode_defs decode_simps)

text \<open>C11: Transaction.toString is injective: two transactions with the same canonical encoding are equal, so a signature over the encoding covers amount, payer and payee.\<close>

theorem tx_to_string_inj: "tx_to_string t1 = tx_to_string t2 \<longleftrightarrow> t1 = t2"
  by (metis append.right_neutral option.inject parse_tx_to_string prod.inject)

end
