(* ===== verification/Hex.thy ===== *)
theory Hex
  imports Prelude
begin

text \<open>
  Node's \<^verbatim>\<open>hash.digest('hex')\<close>, used by \<^verbatim>\<open>Block.hash\<close> and by
  \<^verbatim>\<open>Chain.mine\<close> (src/index.ts), renders the digest bytes as lowercase
  hexadecimal, two characters per byte, most significant nibble first. This theory
  models that rendering over the bytes of a digest, its inverse, its length, and the
  meaning of the mining test \<^verbatim>\<open>attempt.substr(0,4) === '0000'\<close>: the first two
  bytes are zero, that is, the digest read as a big-endian number has its leading 16 bits
  clear.
\<close>

definition hex_byte :: "byte \<Rightarrow> string" where
  "hex_byte b = [hex_digit (unat b div 16), hex_digit (unat b mod 16)]"

definition hex_encode :: "byte list \<Rightarrow> string" where
  "hex_encode bs = concat (map hex_byte bs)"

fun hex_decode :: "string \<Rightarrow> byte list option" where
  "hex_decode [] = Some []"
| "hex_decode [c] = None"
| "hex_decode (h # l # cs) =
     (if is_hex_digit h \<and> is_hex_digit l
      then map_option (Cons (of_nat (16 * hex_val h + hex_val l))) (hex_decode cs)
      else None)"

definition be_value :: "byte list \<Rightarrow> nat" where
  "be_value bs = foldl (\<lambda>a b. 256 * a + unat b) 0 bs"

subsection \<open>Shape and inverse\<close>

lemma unat_byte_less: "unat (b :: byte) < 256"
  using unsigned_less [of b, where ?'a = nat] by simp

lemma unat_byte_div16: "unat (b :: byte) div 16 < 16"
  using unat_byte_less [of b] by simp

lemma length_hex_encode: "length (hex_encode bs) = 2 * length bs"
  by (induction bs) (simp_all add: hex_encode_def hex_byte_def)

lemma hex_encode_Cons [encode_defs]: "hex_encode (b # bs) = hex_byte b @ hex_encode bs"
  by (simp add: hex_encode_def)

lemma hex_encode_chars: "\<forall>c \<in> set (hex_encode bs). is_hex_digit c"
  by (auto simp: hex_encode_def hex_byte_def unat_byte_div16)

lemma hex_decode_encode: "hex_decode (hex_encode bs) = Some bs"
proof (induction bs)
  case Nil
  then show ?case by (simp add: hex_encode_def)
next
  case (Cons b bs)
  have "of_nat (16 * (unat b div 16) + unat b mod 16) = b"
    by simp
  with Cons show ?case
    by (simp add: hex_encode_Cons hex_byte_def unat_byte_div16)
qed

subsection \<open>The mining test\<close>

lemma hex_encode_inj: "hex_encode xs = hex_encode ys \<Longrightarrow> xs = ys"
  by (metis hex_decode_encode option.inject)

lemma hex_byte_zero_iff: "hex_byte b = ''00'' \<longleftrightarrow> b = 0"
proof -
  have "hex_byte b = ''00'' \<longleftrightarrow> unat b div 16 = 0 \<and> unat b mod 16 = 0"
    by (simp add: hex_byte_def unat_byte_div16)
  also have "\<dots> \<longleftrightarrow> unat b = 0"
    by auto
  finally show ?thesis by (simp add: unat_0_iff)
qed

lemma hex_prefix_zero_iff: "take 4 (hex_encode bs) = ''0000'' \<longleftrightarrow> take 2 bs = [0, 0]"
proof (cases bs)
  case Nil
  then show ?thesis by (simp add: hex_encode_def)
next
  case (Cons a rest)
  show ?thesis
  proof (cases rest)
    case Nil
    with Cons show ?thesis by (simp add: hex_encode_def hex_byte_def)
  next
    case (Cons b rest')
    have "take 4 (hex_byte a @ hex_byte b @ hex_encode rest') = hex_byte a @ hex_byte b"
      by (simp add: hex_byte_def)
    moreover have "hex_byte a @ hex_byte b = ''0000'' \<longleftrightarrow>
        hex_byte a = ''00'' \<and> hex_byte b = ''00''"
      by (simp add: hex_byte_def)
    ultimately show ?thesis
      using \<open>bs = a # rest\<close> Cons by (simp add: hex_encode_Cons hex_byte_zero_iff)
  qed
qed

subsection \<open>Leading zero bits\<close>

text \<open>
  Two zero bytes at the front of a digest of \<open>n + 2\<close> bytes are exactly a digest
  whose big-endian value is below \<open>2\<^sup>8\<^sup>n\<close>, that is, whose leading 16 bits are
  zero.
\<close>

lemma foldl_be_value: "foldl (\<lambda>a b. 256 * a + unat b) acc bs = acc * 256 ^ length bs + be_value bs"
proof (induction bs arbitrary: acc)
  case Nil
  then show ?case by (simp add: be_value_def)
next
  case (Cons b bs)
  have "be_value (b # bs) = unat b * 256 ^ length bs + be_value bs"
    using Cons.IH [of "unat b"] by (simp add: be_value_def)
  with Cons.IH [of "256 * acc + unat b"] show ?case
    by (simp add: algebra_simps)
qed

lemma be_value_Cons: "be_value (b # bs) = unat b * 256 ^ length bs + be_value bs"
  using foldl_be_value [of "unat b" bs] by (simp add: be_value_def)

lemma be_value_less: "be_value bs < 256 ^ length bs"
proof (induction bs)
  case Nil
  then show ?case by (simp add: be_value_def)
next
  case (Cons b bs)
  have "unat b \<le> 255" using unat_byte_less [of b] by simp
  then have "unat b * 256 ^ length bs + be_value bs < 255 * 256 ^ length bs + 256 ^ length bs"
    using Cons.IH by (meson add_le_less_mono mult_le_mono1)
  then show ?case by (simp add: be_value_Cons)
qed

lemma two_zero_bytes_iff_be_value:
  assumes "length bs = n + 2"
  shows "take 2 bs = [0, 0] \<longleftrightarrow> be_value bs < 2 ^ (8 * n)"
proof -
  obtain a b rest where bs: "bs = a # b # rest" and len: "length rest = n"
    using assms by (cases bs; cases "tl bs") auto
  have pow: "(2::nat) ^ (8 * n) = 256 ^ n"
    by (simp add: power_mult)
  have val: "be_value bs = (256 * unat a + unat b) * 256 ^ n + be_value rest"
    using bs len by (simp add: be_value_Cons algebra_simps)
  have small: "be_value rest < 256 ^ n" using be_value_less [of rest] len by simp
  show ?thesis
  proof
    assume "take 2 bs = [0, 0]"
    then have "a = 0" "b = 0" using bs by auto
    with val small pow show "be_value bs < 2 ^ (8 * n)" by simp
  next
    assume lt: "be_value bs < 2 ^ (8 * n)"
    have "256 * unat a + unat b = 0"
    proof (rule ccontr)
      assume "256 * unat a + unat b \<noteq> 0"
      then have "1 \<le> 256 * unat a + unat b" by linarith
      then have "256 ^ n \<le> (256 * unat a + unat b) * 256 ^ n" by simp
      with val lt pow show False by linarith
    qed
    then have "a = 0" "b = 0" by (simp_all add: unat_0_iff)
    with bs show "take 2 bs = [0, 0]" by simp
  qed
qed
end
