(* ===== verification/Crypto.thy ===== *)
theory Crypto
  imports Prelude
begin

text \<open>
  The program calls Node's \<^verbatim>\<open>crypto\<close> module and nothing of it is code of the
  repository: \<^verbatim>\<open>createHash('SHA256')\<close> in \<^verbatim>\<open>Block.hash\<close>,
  \<^verbatim>\<open>createHash('MD5')\<close> in \<^verbatim>\<open>Chain.mine\<close>, \<^verbatim>\<open>createVerify('SHA256')\<close>
  in \<^verbatim>\<open>Chain.addBlock\<close> and \<^verbatim>\<open>createSign('SHA256')\<close> in
  \<^verbatim>\<open>Wallet.sendMoney\<close>. The ledger is modelled over these primitives as parameters,
  collected in the record \<open>crypto\<close>: the two digests return the digest bytes (before
  the hexadecimal rendering of Hex), and signing and verification may throw, which is
  the \<open>Inl\<close> of their result (Node throws when a PEM key cannot be parsed). No property
  of the development assumes anything of the primitives beyond what its hypotheses state
  at the inputs it is about.

  \<open>toy_crypto\<close> is a small executable instance used only to evaluate witnesses: its
  digests have the right lengths, its MD5 stand-in has two leading zero bytes exactly for
  strings ending in \<open>5\<close>, and its signature over a message under the private key
  \<open>''sk:'' @ pk\<close> is checked by verification under \<open>pk\<close>; the empty key is
  malformed.
\<close>

record crypto =
  sha256 :: "string \<Rightarrow> byte list"
  md5 :: "string \<Rightarrow> byte list"
  verify_sig :: "string \<Rightarrow> string \<Rightarrow> byte list \<Rightarrow> string + bool"
  sign_msg :: "string \<Rightarrow> string \<Rightarrow> string + byte list"

definition toy_bytes :: "string \<Rightarrow> byte list" where
  "toy_bytes s = map (\<lambda>c. of_nat (of_char c)) s"

definition toy_sha256 :: "string \<Rightarrow> byte list" where
  "toy_sha256 s = of_nat (length s) # replicate 31 0"

definition toy_md5 :: "string \<Rightarrow> byte list" where
  "toy_md5 s = (if s \<noteq> [] \<and> last s = CHR ''5'' then [0, 0] else [1, 0]) @ replicate 14 7"

definition toy_sign :: "string \<Rightarrow> string \<Rightarrow> string + byte list" where
  "toy_sign m sk = (if sk = [] then Inl ''ERR_OSSL_PEM'' else Inr (toy_bytes (sk @ m)))"

definition toy_verify :: "string \<Rightarrow> string \<Rightarrow> byte list \<Rightarrow> string + bool" where
  "toy_verify m pk sig =
     (if pk = [] then Inl ''ERR_OSSL_PEM'' else Inr (sig = toy_bytes (''sk:'' @ pk @ m)))"

definition toy_crypto :: crypto where
  "toy_crypto = \<lparr>sha256 = toy_sha256, md5 = toy_md5, verify_sig = toy_verify, sign_msg = toy_sign\<rparr>"

lemma toy_crypto_sel [simp]:
  "sha256 toy_crypto = toy_sha256" "md5 toy_crypto = toy_md5"
  "verify_sig toy_crypto = toy_verify" "sign_msg toy_crypto = toy_sign"
  by (simp_all add: toy_crypto_def)

end
