(* ===== verification/Block.thy ===== *)
theory Block
  imports Transaction Hex Crypto
begin

text \<open>
  The class \<^verbatim>\<open>Block\<close> of src/index.ts (lines 18--34). Its constructor takes the
  previous hash, the transaction and a timestamp defaulting to \<^verbatim>\<open>Date.now()\<close>; the
  field initialiser draws \<^verbatim>\<open>nonce = Math.round(Math.random() * 999999999)\<close>. The
  TypeScript compiler creates the parameter properties before the initialised field,
  so the own properties are \<^verbatim>\<open>prevHash\<close>, \<^verbatim>\<open>transaction\<close>, \<^verbatim>\<open>ts\<close>,
  \<^verbatim>\<open>nonce\<close> in this order, and that is the order \<^verbatim>\<open>JSON.stringify(this)\<close>
  writes them in the \<^verbatim>\<open>hash\<close> getter. The nested transaction is serialised as
  \<^verbatim>\<open>Transaction.toString\<close> serialises it (\<^verbatim>\<open>JSON.stringify\<close> does not call
  \<^verbatim>\<open>toString\<close>, but writes the same object the same way).

  The two effects of the constructor are inputs of the model: the clock reading
  \<open>now\<close> (milliseconds, a natural number) and the random draw. \<^verbatim>\<open>Math.random()\<close>
  returns a double of the form \<open>k / 2\<^sup>53\<close> with \<open>k < 2\<^sup>53\<close>, and
  \<open>random_nonce k\<close> rounds \<open>k / 2\<^sup>53 * 999999999\<close> half up as \<^verbatim>\<open>Math.round\<close>
  does; the product is computed exactly here, where JavaScript rounds it to a double
  first (the two agree except on the rare products that double rounding moves across a
  half).
\<close>

record block =
  prevHash :: string
  transaction :: transaction
  ts :: nat
  nonce :: nat

definition random_nonce :: "nat \<Rightarrow> nat" where
  "random_nonce k = (2 * k * 999999999 + 2 ^ 53) div 2 ^ 54"

definition block_new :: "string \<Rightarrow> transaction \<Rightarrow> nat \<Rightarrow> nat \<Rightarrow> block" where
  "block_new prev tx rnd now =
     \<lparr>prevHash = prev, transaction = tx, ts = now, nonce = random_nonce rnd\<rparr>"

definition block_json :: "block \<Rightarrow> string" where
  "block_json b =
     json_object
       [(''prevHash'', json_quote (prevHash b)),
        (''transaction'', tx_to_string (transaction b)),
        (''ts'', js_number_to_string (int (ts b))),
        (''nonce'', js_number_to_string (int (nonce b)))]"

definition block_hash :: "crypto \<Rightarrow> block \<Rightarrow> string" where
  "block_hash cr b = hex_encode (sha256 cr (block_json b))"

definition parse_block :: "string \<Rightarrow> (block \<times> string) option" where
  \<open>parse_block s = do {
     r1 \<leftarrow> strip_prefix ''{"prevHash":'' s;
     (p, r2) \<leftarrow> json_read_string r1;
     r3 \<leftarrow> strip_prefix '',"transaction":'' r2;
     (t, r4) \<leftarrow> parse_tx r3;
     r5 \<leftarrow> strip_prefix '',"ts":'' r4;
     (x, r6) \<leftarrow> read_int r5;
     r7 \<leftarrow> strip_prefix '',"nonce":'' r6;
     (n, r8) \<leftarrow> read_int r7;
     r9 \<leftarrow> strip_prefix ''}'' r8;
     Some (\<lparr>prevHash = p, transaction = t, ts = nat x, nonce = nat n\<rparr>, r9)
   }\<close>

subsection \<open>Encoding\<close>

lemma block_json_eq [encode_defs]:
  \<open>block_json b =
     ''{"prevHash":'' @ json_quote (prevHash b) @ '',"transaction":'' @ tx_to_string (transaction b)
     @ '',"ts":'' @ js_number_to_string (int (ts b)) @ '',"nonce":''
     @ js_number_to_string (int (nonce b)) @ ''}''\<close>
  by (simp add: block_json_def json_object_def json_member_def json_quote_def json_escape_char_def)

lemma no_digit_start_brace [simp]: "no_digit_start (CHR ''}'' # s)"
  by (simp add: no_digit_start_def is_digit_def)

text \<open>C10: The block's canonical encoding (what the hash getter hashes) decodes back to the block, whatever text follows.\<close>

theorem parse_block_json: "parse_block (block_json b @ r) = Some (b, r)"
  by (simp add: parse_block_def block_json_eq decode_simps)

lemma block_json_inj: "block_json b = block_json b' \<Longrightarrow> b = b'"
proof -
  assume eq: "block_json b = block_json b'"
  have "parse_block (block_json b @ []) = Some (b, [])"
    and "parse_block (block_json b' @ []) = Some (b', [])"
    by (simp_all add: parse_block_def block_json_eq decode_simps)
  with eq show "b = b'" by simp
qed

subsection \<open>The random nonce\<close>

lemma random_nonce_le: "k < 2 ^ 53 \<Longrightarrow> random_nonce k \<le> 999999999"
  unfolding random_nonce_def by (rule less_Suc_eq_le [THEN iffD1], rule less_mult_imp_div_less) simp

lemma random_nonce_0 [simp]: "random_nonce 0 = 0"
  by (simp add: random_nonce_def)

end
