(* ===== verification/Mine.thy ===== *)
theory Mine
  imports Json Hex Crypto
begin

text \<open>
  \<^verbatim>\<open>Chain.mine(nonce)\<close>, src/index.ts lines 56--72: starting from
  \<^verbatim>\<open>solution = 1\<close>, hash the decimal string of \<^verbatim>\<open>nonce + solution\<close> with MD5,
  return the counter when the hexadecimal digest starts with \<^verbatim>\<open>'0000'\<close>, otherwise
  increment it. The loop has no bound, so it is a \<^theory_text>\<open>partial_function (option)\<close>:
  \<open>None\<close> is the loop that never returns. Both operands are numbers, so \<open>+\<close> adds
  (the counter stays below \<open>2\<^sup>53\<close> for as long as any real run lasts, where
  JavaScript's addition is exact). The \<^verbatim>\<open>console.log\<close> calls are output only.

  The lemmas characterise the loop completely: it returns exactly when some positive
  counter hits, and then it returns the least one (\<open>mine_Some_iff\<close>,
  \<open>mine_None_iff\<close>), and the test itself is a bound on the digest's value
  (\<open>mine_hit_leading_bits\<close>).
\<close>

definition mine_hit :: "crypto \<Rightarrow> nat \<Rightarrow> nat \<Rightarrow> bool" where
  "mine_hit cr n s \<longleftrightarrow> take 4 (hex_encode (md5 cr (js_number_to_string (int (n + s))))) = ''0000''"

partial_function (option) mine_from :: "crypto \<Rightarrow> nat \<Rightarrow> nat \<Rightarrow> nat option" where
  "mine_from cr n s = (if mine_hit cr n s then Some s else mine_from cr n (s + 1))"

definition mine :: "crypto \<Rightarrow> nat \<Rightarrow> nat option" where
  "mine cr n = mine_from cr n 1"

subsection \<open>The test\<close>

lemma mine_hit_bytes: "mine_hit cr n s \<longleftrightarrow> take 2 (md5 cr (js_number_to_string (int (n + s)))) = [0, 0]"
  by (simp add: mine_hit_def hex_prefix_zero_iff)

lemma mine_from_hit: "mine_hit cr n s \<Longrightarrow> mine_from cr n s = Some s"
  by (simp add: mine_from.simps [of cr n s])

lemma mine_from_miss: "\<not> mine_hit cr n s \<Longrightarrow> mine_from cr n s = mine_from cr n (s + 1)"
  by (simp add: mine_from.simps [of cr n s])

lemmas mine_from_unfold = mine_from_hit mine_from_miss

subsection \<open>Partial correctness: what a returned counter is\<close>

lemma mine_from_Some:
  assumes "mine_from cr n s = Some r"
  shows "s \<le> r \<and> mine_hit cr n r \<and> (\<forall>k. s \<le> k \<and> k < r \<longrightarrow> \<not> mine_hit cr n k)"
proof (rule mine_from.raw_induct [where P = "\<lambda>cr n s r. s \<le> r \<and> mine_hit cr n r
    \<and> (\<forall>k. s \<le> k \<and> k < r \<longrightarrow> \<not> mine_hit cr n k)", OF _ assms])
  fix f :: "crypto \<Rightarrow> nat \<Rightarrow> nat \<Rightarrow> nat option" and cr n s r
  assume IH: "\<And>cr n s r. f cr n s = Some r \<Longrightarrow> s \<le> r \<and> mine_hit cr n r
      \<and> (\<forall>k. s \<le> k \<and> k < r \<longrightarrow> \<not> mine_hit cr n k)"
    and eq: "(if mine_hit cr n s then Some s else f cr n (s + 1)) = Some r"
  show "s \<le> r \<and> mine_hit cr n r \<and> (\<forall>k. s \<le> k \<and> k < r \<longrightarrow> \<not> mine_hit cr n k)"
  proof (cases "mine_hit cr n s")
    case True
    with eq show ?thesis by auto
  next
    case False
    note miss = this
    with eq have "f cr n (s + 1) = Some r" by simp
    then have IH': "s + 1 \<le> r \<and> mine_hit cr n r
        \<and> (\<forall>k. s + 1 \<le> k \<and> k < r \<longrightarrow> \<not> mine_hit cr n k)"
      by (rule IH)
    have "\<forall>k. s \<le> k \<and> k < r \<longrightarrow> \<not> mine_hit cr n k"
    proof (intro allI impI)
      fix k
      assume k: "s \<le> k \<and> k < r"
      show "\<not> mine_hit cr n k"
      proof (cases "k = s")
        case True
        with miss show ?thesis by simp
      next
        case False
        with k IH' show ?thesis by simp
      qed
    qed
    with IH' show ?thesis by simp
  qed
qed

subsection \<open>Termination: a hit at or after the start makes the loop return\<close>

lemma mine_from_returns:
  "mine_hit cr n k \<Longrightarrow> s \<le> k \<Longrightarrow> \<exists>r. mine_from cr n s = Some r"
proof (induction "k - s" arbitrary: s)
  case 0
  then have "s = k" by simp
  with "0.prems"(1) show ?case by (simp add: mine_from_hit)
next
  case (Suc d)
  show ?case
  proof (cases "mine_hit cr n s")
    case True
    then show ?thesis by (simp add: mine_from_unfold)
  next
    case False
    have "d = k - (s + 1)" and "s + 1 \<le> k"
      using Suc.hyps(2) by arith+
    then obtain r where "mine_from cr n (s + 1) = Some r"
      using Suc.hyps(1) Suc.prems(1) by blast
    with False show ?thesis by (simp add: mine_from_unfold)
  qed
qed

lemma mine_from_None: "mine_from cr n s = None \<longleftrightarrow> (\<forall>k \<ge> s. \<not> mine_hit cr n k)"
  by (metis mine_from_Some mine_from_returns not_None_eq)

subsection \<open>The loop characterised\<close>

text \<open>C5: mine returns s exactly when s is the least positive counter whose MD5 digest of the decimal string of nonce + s starts with four zero hex digits.\<close>

theorem mine_Some_iff:
  "mine cr n = Some s \<longleftrightarrow> 1 \<le> s \<and> mine_hit cr n s \<and> (\<forall>k. 1 \<le> k \<and> k < s \<longrightarrow> \<not> mine_hit cr n k)"
proof
  assume "mine cr n = Some s"
  then show "1 \<le> s \<and> mine_hit cr n s \<and> (\<forall>k. 1 \<le> k \<and> k < s \<longrightarrow> \<not> mine_hit cr n k)"
    unfolding mine_def by (rule mine_from_Some)
next
  assume least: "1 \<le> s \<and> mine_hit cr n s \<and> (\<forall>k. 1 \<le> k \<and> k < s \<longrightarrow> \<not> mine_hit cr n k)"
  then obtain r where r: "mine_from cr n 1 = Some r"
    using mine_from_returns by blast
  from mine_from_Some [OF r] least have "r = s"
    by (metis linorder_neqE_nat)
  with r show "mine cr n = Some s" by (simp add: mine_def)
qed

text \<open>C6: mine never returns exactly when no positive counter hits.\<close>

theorem mine_None_iff: "mine cr n = None \<longleftrightarrow> (\<forall>k \<ge> 1. \<not> mine_hit cr n k)"
  by (simp add: mine_def mine_from_None)

lemmas mine_eval = mine_hit_def js_number_to_string_def nat_digits.simps digit_char_def
  char_of_eq_iff hex_encode_def hex_byte_def hex_digit_def

lemma toy_hit: "\<not> mine_hit toy_crypto 3 1" "mine_hit toy_crypto 3 2"
  by (simp_all add: mine_eval toy_crypto_def toy_md5_def)

lemma mine_toy: "mine toy_crypto 3 = Some 2"
  unfolding mine_def
  using mine_from_miss [OF toy_hit(1), unfolded one_add_one] mine_from_hit [OF toy_hit(2)]
  by (rule trans)
lemma toy_hits0: "\<not> mine_hit toy_crypto 0 1" "\<not> mine_hit toy_crypto 0 2" "\<not> mine_hit toy_crypto 0 3"
  "\<not> mine_hit toy_crypto 0 4" "mine_hit toy_crypto 0 5"
  by (simp_all add: mine_eval toy_md5_def)

lemma mine_toy0: "mine toy_crypto 0 = Some 5"
proof -
  have e1: "mine_from toy_crypto 0 1 = mine_from toy_crypto 0 2"
    using mine_from_miss [OF toy_hits0(1)] by (simp only: one_add_one)
  have e2: "mine_from toy_crypto 0 2 = mine_from toy_crypto 0 3"
    using mine_from_miss [OF toy_hits0(2)] by simp
  have e3: "mine_from toy_crypto 0 3 = mine_from toy_crypto 0 4"
    using mine_from_miss [OF toy_hits0(3)] by simp
  have e4: "mine_from toy_crypto 0 4 = mine_from toy_crypto 0 5"
    using mine_from_miss [OF toy_hits0(4)] by simp
  show ?thesis
    by (simp only: mine_def e1 e2 e3 e4 mine_from_hit [OF toy_hits0(5)])
qed

text \<open>C12: For a 16-byte digest, the mining test substr(0,4) === '0000' holds exactly when the digest, read as a big-endian number, is below 2^112, i.e. its leading 16 bits are zero.\<close>

theorem mine_hit_leading_bits:
  "length (md5 cr (js_number_to_string (int (n + s)))) = 16 \<Longrightarrow>
   mine_hit cr n s \<longleftrightarrow> be_value (md5 cr (js_number_to_string (int (n + s)))) < 2 ^ 112"
  using two_zero_bytes_iff_be_value [of _ 14] by (simp add: mine_hit_bytes)

end
