(* ===== verification/Chain.thy ===== *)
theory Chain
  imports Block Mine
begin

text \<open>
  The class \<^verbatim>\<open>Chain\<close> of src/index.ts (lines 37--86): the block array, the
  constructor that puts the genesis block in it, the \<^verbatim>\<open>lastBlock\<close> getter and
  \<^verbatim>\<open>addBlock\<close>; \<^verbatim>\<open>mine\<close> is in theory Mine. The singleton
  \<^verbatim>\<open>Chain.instance\<close> is the state \<open>chain_state\<close>, passed explicitly and returned
  updated. \<^verbatim>\<open>addBlock\<close> returns a value of type
  \<open>(js_error + chain_state) option\<close>: \<open>None\<close> when mining never returns,
  \<open>Inl\<close> for an exception (a key that \<^verbatim>\<open>verify\<close> cannot parse, or a missing last
  block), \<open>Inr\<close> for the state after a normal return, unchanged when the signature
  does not verify. The clock reading and the random draw of the new block are inputs, as
  in theory Block.
\<close>

datatype js_error = TypeError | CryptoError string

record chain_state =
  chain :: "block list"

definition genesis_tx :: transaction where
  "genesis_tx = \<lparr>amount = 100, payer = ''genesis'', payee = ''satoshi''\<rparr>"

definition chain_new :: "nat \<Rightarrow> nat \<Rightarrow> chain_state" where
  "chain_new rnd now = \<lparr>chain = [block_new [] genesis_tx rnd now]\<rparr>"

definition last_block :: "chain_state \<Rightarrow> block option" where
  "last_block st = (if chain st = [] then None else Some (last (chain st)))"

definition add_block ::
  "crypto \<Rightarrow> nat \<Rightarrow> nat \<Rightarrow> transaction \<Rightarrow> string \<Rightarrow> byte list \<Rightarrow> chain_state
   \<Rightarrow> (js_error + chain_state) option" where
  "add_block cr rnd now tx pk sig st =
     (case verify_sig cr (tx_to_string tx) pk sig of
        Inl e \<Rightarrow> Some (Inl (CryptoError e))
      | Inr valid \<Rightarrow>
          if valid then
            (case last_block st of
               None \<Rightarrow> Some (Inl TypeError)
             | Some lb \<Rightarrow>
                 let nb = block_new (block_hash cr lb) tx rnd now in
                 map_option (\<lambda>_. Inr (st\<lparr>chain := chain st @ [nb]\<rparr>)) (mine cr (nonce nb)))
          else Some (Inr st))"

subsection \<open>Reachable chains and the abstract ledger\<close>

text \<open>
  \<open>ledger_step\<close> is one call of \<^verbatim>\<open>addBlock\<close> that returns normally, with any
  transaction, key and signature, and a random draw in the range \<^verbatim>\<open>Math.random\<close>
  produces; \<open>reachable\<close> closes the states of a fresh chain under it. The abstract
  ledger is the list of transactions, and \<open>ledger_submit\<close> is its one operation:
  append the transaction exactly when it is authorised.
\<close>

definition ledger_abs :: "chain_state \<Rightarrow> transaction list" where
  "ledger_abs st = map transaction (chain st)"

definition ledger_submit :: "bool \<Rightarrow> transaction \<Rightarrow> transaction list \<Rightarrow> transaction list" where
  "ledger_submit ok tx txs = (if ok then txs @ [tx] else txs)"

inductive ledger_step :: "crypto \<Rightarrow> chain_state \<Rightarrow> chain_state \<Rightarrow> bool" for cr where
  submit: "rnd < 2 ^ 53 \<Longrightarrow> add_block cr rnd now tx pk sig st = Some (Inr st') \<Longrightarrow> ledger_step cr st st'"

inductive reachable :: "crypto \<Rightarrow> chain_state \<Rightarrow> bool" for cr where
  init: "rnd < 2 ^ 53 \<Longrightarrow> reachable cr (chain_new rnd now)"
| step: "reachable cr st \<Longrightarrow> ledger_step cr st st' \<Longrightarrow> reachable cr st'"

inductive_cases ledger_step_cases: "ledger_step cr st st'"

subsection \<open>The chain invariant\<close>

text \<open>
  \<open>linked\<close> is the linkage of consecutive blocks, as an executable recursion;
  \<open>linked_iff_nth\<close> restates it as the spec does, by index. \<open>chain_valid\<close> is the
  invariant of every reachable chain: not empty, the genesis block first (empty previous
  hash, the genesis transaction), consecutive blocks linked, every nonce in the range of
  the random draw.
\<close>

fun linked :: "crypto \<Rightarrow> block list \<Rightarrow> bool" where
  "linked cr (a # b # rest) \<longleftrightarrow> prevHash b = block_hash cr a \<and> linked cr (b # rest)"
| "linked cr _ \<longleftrightarrow> True"

definition chain_valid :: "crypto \<Rightarrow> chain_state \<Rightarrow> bool" where
  "chain_valid cr st \<longleftrightarrow>
     chain st \<noteq> [] \<and> prevHash (hd (chain st)) = [] \<and> transaction (hd (chain st)) = genesis_tx
     \<and> linked cr (chain st) \<and> list_all (\<lambda>b. nonce b \<le> 999999999) (chain st)"

lemma linked_snoc:
  "linked cr (xs @ [b]) \<longleftrightarrow> linked cr xs \<and> (xs \<noteq> [] \<longrightarrow> prevHash b = block_hash cr (last xs))"
  by (induction cr xs rule: linked.induct) auto

lemma linked_tl: "linked cr (x # rest) \<Longrightarrow> linked cr rest"
  by (cases rest) auto

lemma linked_middle: "linked cr (xs @ b # c # ys) \<Longrightarrow> prevHash c = block_hash cr b"
  by (induction xs) (auto dest: linked_tl)

lemma linked_iff_nth:
  "linked cr bs \<longleftrightarrow>
     (\<forall>i. 0 < i \<and> i < length bs \<longrightarrow> prevHash (bs ! i) = block_hash cr (bs ! (i - 1)))"
proof (induction cr bs rule: linked.induct)
  case (1 cr a b rest)
  have "(\<forall>i. 0 < i \<and> i < length (a # b # rest) \<longrightarrow>
          prevHash ((a # b # rest) ! i) = block_hash cr ((a # b # rest) ! (i - 1)))
      \<longleftrightarrow> prevHash b = block_hash cr a \<and>
          (\<forall>i. 0 < i \<and> i < length (b # rest) \<longrightarrow>
             prevHash ((b # rest) ! i) = block_hash cr ((b # rest) ! (i - 1)))"
    (is "?L \<longleftrightarrow> ?R")
  proof
    assume L: ?L
    show ?R
    proof (intro conjI allI impI)
      show "prevHash b = block_hash cr a" using L [rule_format, of 1] by simp
    next
      fix i
      assume "0 < i \<and> i < length (b # rest)"
      then show "prevHash ((b # rest) ! i) = block_hash cr ((b # rest) ! (i - 1))"
        using L [rule_format, of "Suc i"] by (cases i) auto
    qed
  next
    assume R: ?R
    show ?L
    proof (intro allI impI)
      fix i
      assume i: "0 < i \<and> i < length (a # b # rest)"
      show "prevHash ((a # b # rest) ! i) = block_hash cr ((a # b # rest) ! (i - 1))"
      proof (cases "i = 1")
        case True
        with R show ?thesis by simp
      next
        case False
        with i obtain j where "i = Suc j" and "0 < j" and "j < length (b # rest)"
          by (cases i) auto
        with R show ?thesis by auto
      qed
    qed
  qed
  with "1.IH" show ?case by simp
qed auto

subsection \<open>The operations on every branch\<close>

lemma last_block_Some: "chain st \<noteq> [] \<Longrightarrow> last_block st = Some (last (chain st))"
  by (simp add: last_block_def)

text \<open>C4: addBlock with a key that the verifier cannot parse throws the verifier's error and appends nothing.\<close>

theorem add_block_throws:
  "verify_sig cr (tx_to_string tx) pk sig = Inl e \<Longrightarrow>
   add_block cr rnd now tx pk sig st = Some (Inl (CryptoError e))"
  by (simp add: add_block_def)

text \<open>C3: addBlock with a signature that does not verify returns normally and leaves the chain unchanged.\<close>

theorem add_block_invalid:
  "verify_sig cr (tx_to_string tx) pk sig = Inr False \<Longrightarrow>
   add_block cr rnd now tx pk sig st = Some (Inr st)"
  by (simp add: add_block_def)

lemma add_block_valid [ledger_simps]:
  "verify_sig cr (tx_to_string tx) pk sig = Inr True \<Longrightarrow> chain st \<noteq> [] \<Longrightarrow>
   add_block cr rnd now tx pk sig st =
     map_option
       (\<lambda>_. Inr (st\<lparr>chain := chain st @ [block_new (block_hash cr (last (chain st))) tx rnd now]\<rparr>))
       (mine cr (random_nonce rnd))"
  by (simp add: add_block_def last_block_Some block_new_def)

lemma add_block_empty [ledger_simps]:
  "verify_sig cr (tx_to_string tx) pk sig = Inr True \<Longrightarrow> chain st = [] \<Longrightarrow>
   add_block cr rnd now tx pk sig st = Some (Inl TypeError)"
  by (simp add: add_block_def last_block_def)

lemma add_block_valid_mined [ledger_simps]:
  "verify_sig cr (tx_to_string tx) pk sig = Inr True \<Longrightarrow> chain st \<noteq> [] \<Longrightarrow>
   mine cr (random_nonce rnd) = Some s \<Longrightarrow>
   add_block cr rnd now tx pk sig st =
     Some (Inr (st\<lparr>chain := chain st @ [block_new (block_hash cr (last (chain st))) tx rnd now]\<rparr>))"
  by (simp add: add_block_valid)

lemma add_block_Inr_cases:
  assumes "add_block cr rnd now tx pk sig st = Some (Inr st')"
  obtains (rejected) "verify_sig cr (tx_to_string tx) pk sig = Inr False" "st' = st"
  | (appended) "verify_sig cr (tx_to_string tx) pk sig = Inr True" "chain st \<noteq> []"
      "\<exists>s. mine cr (random_nonce rnd) = Some s"
      "st' = st\<lparr>chain := chain st @ [block_new (block_hash cr (last (chain st))) tx rnd now]\<rparr>"
proof (cases "verify_sig cr (tx_to_string tx) pk sig")
  case (Inl e)
  with assms show ?thesis by (simp add: add_block_def)
next
  case (Inr v)
  show ?thesis
  proof (cases v)
    case False
    with Inr assms show ?thesis using rejected by (simp add: add_block_def)
  next
    case True
    show ?thesis
    proof (cases "chain st = []")
      case True
      with Inr \<open>v\<close> assms show ?thesis by (simp add: add_block_empty)
    next
      case False
      with Inr \<open>v\<close> assms show ?thesis using appended by (auto simp: add_block_valid)
    qed
  qed
qed

subsection \<open>Invariant and behaviour of addBlock\<close>

lemma chain_valid_new: "rnd < 2 ^ 53 \<Longrightarrow> chain_valid cr (chain_new rnd now)"
  by (simp add: chain_valid_def chain_new_def block_new_def random_nonce_le)

lemma chain_valid_snoc:
  assumes "chain_valid cr st" and "nonce b \<le> 999999999"
    and "prevHash b = block_hash cr (last (chain st))"
  shows "chain_valid cr (st\<lparr>chain := chain st @ [b]\<rparr>)"
  using assms by (simp add: chain_valid_def linked_snoc)

lemma add_block_chain_valid:
  assumes "chain_valid cr st" and "rnd < 2 ^ 53"
    and "add_block cr rnd now tx pk sig st = Some (Inr st')"
  shows "chain_valid cr st'"
  using assms(3)
proof (cases rule: add_block_Inr_cases)
  case rejected
  with assms(1) show ?thesis by simp
next
  case appended
  with assms(1,2) show ?thesis
    by (simp add: chain_valid_snoc block_new_def random_nonce_le)
qed

lemma reachable_valid: "reachable cr st \<Longrightarrow> chain_valid cr st"
proof (induction rule: reachable.induct)
  case (init rnd now)
  then show ?case by (rule chain_valid_new)
next
  case (step st st')
  from step.hyps(2) step.IH show ?case
    by (cases rule: ledger_step_cases) (auto intro: add_block_chain_valid)
qed

text \<open>C1: In every chain reachable from a fresh chain by calls of addBlock, each non-genesis block's previous hash is the hash of the block before it.\<close>

theorem reachable_linked_nth:
  "reachable cr st \<Longrightarrow> 0 < i \<Longrightarrow> i < length (chain st) \<Longrightarrow>
   prevHash (chain st ! i) = block_hash cr (chain st ! (i - 1))"
  using reachable_valid [of cr st] linked_iff_nth [of cr "chain st"] by (simp add: chain_valid_def)

text \<open>C8: Every reachable chain is non-empty and starts with the genesis block: empty previous hash and the genesis transaction.\<close>

theorem reachable_genesis:
  "reachable cr st \<Longrightarrow>
   chain st \<noteq> [] \<and> prevHash (hd (chain st)) = [] \<and> transaction (hd (chain st)) = genesis_tx"
  using reachable_valid [of cr st] by (simp add: chain_valid_def)

text \<open>C15: Every block of a reachable chain has a nonce of at most 999999999, the range of Math.round(Math.random() * 999999999).\<close>

theorem reachable_nonce_bound:
  "reachable cr st \<Longrightarrow> b \<in> set (chain st) \<Longrightarrow> nonce b \<le> 999999999"
  using reachable_valid [of cr st] by (simp add: chain_valid_def list_all_iff)

text \<open>C2: addBlock with a signature that verifies under the given key, on a non-empty chain, when some positive mining counter hits, returns normally and appends exactly one block: previous hash the hash of the old last block, the submitted transaction, the clock reading and the random nonce.\<close>

theorem add_block_appends:
  assumes "verify_sig cr (tx_to_string tx) pk sig = Inr True" and "chain st \<noteq> []"
    and "mine_hit cr (random_nonce rnd) k" and "1 \<le> k"
  shows "\<exists>st'. add_block cr rnd now tx pk sig st = Some (Inr st') \<and>
    chain st' = chain st @ [\<lparr>prevHash = block_hash cr (last (chain st)), transaction = tx,
                              ts = now, nonce = random_nonce rnd\<rparr>]"
proof -
  obtain s where "mine cr (random_nonce rnd) = Some s"
    using mine_from_returns [OF assms(3,4)] by (auto simp: mine_def)
  with assms(1,2) show ?thesis by (simp add: add_block_valid_mined block_new_def)
qed

text \<open>C7: addBlock with a valid signature never returns when no positive counter hits for the new block's nonce.\<close>

theorem add_block_diverges:
  "verify_sig cr (tx_to_string tx) pk sig = Inr True \<Longrightarrow> chain st \<noteq> [] \<Longrightarrow>
   (\<forall>k \<ge> 1. \<not> mine_hit cr (random_nonce rnd) k) \<Longrightarrow> add_block cr rnd now tx pk sig st = None"
  by (simp add: add_block_valid mine_def mine_from_None [THEN iffD2])

text \<open>C9: Every normal return of addBlock refines the abstract ledger: its transaction list is the old list with the transaction appended exactly when the signature verified.\<close>

theorem add_block_refines:
  "add_block cr rnd now tx pk sig st = Some (Inr st') \<Longrightarrow>
   ledger_abs st' = ledger_submit (verify_sig cr (tx_to_string tx) pk sig = Inr True) tx (ledger_abs st)"
  by (erule add_block_Inr_cases) (simp_all add: ledger_abs_def ledger_submit_def block_new_def)

text \<open>C13: The state addBlock returns does not depend on the mining digest: the mined solution is computed and discarded, never stored in the block.\<close>

theorem add_block_ignores_solution:
  "add_block cr rnd now tx pk sig st = Some (Inr st1) \<Longrightarrow>
   add_block (cr\<lparr>md5 := h\<rparr>) rnd now tx pk sig st = Some (Inr st2) \<Longrightarrow> st1 = st2"
  by (erule add_block_Inr_cases; erule add_block_Inr_cases) (simp_all add: block_hash_def)

text \<open>C16: addBlock is append-only: on a normal return the old blocks are unchanged and at most one block follows them.\<close>
theorem add_block_append_only:
  "add_block cr rnd now tx pk sig st = Some (Inr st') \<Longrightarrow>
   \<exists>new. chain st' = chain st @ new \<and> length new \<le> 1"
  by (erule add_block_Inr_cases) auto

text \<open>C18: Tampering needs a SHA-256 collision: if a block of a linked chain that has a
  successor is replaced by a different block and the chain is still linked, the two
  blocks have different canonical encodings with the same SHA-256 digest.\<close>

theorem tamper_needs_collision:
  assumes "linked cr (xs @ b # c # ys)" and "linked cr (xs @ b' # c # ys)" and "b' \<noteq> b"
  shows "block_json b' \<noteq> block_json b \<and> sha256 cr (block_json b') = sha256 cr (block_json b)"
proof
  show "block_json b' \<noteq> block_json b" using assms(3) block_json_inj by blast
next
  have "block_hash cr b' = block_hash cr b"
    using linked_middle [OF assms(1)] linked_middle [OF assms(2)] by simp
  then show "sha256 cr (block_json b') = sha256 cr (block_json b)"
    by (simp add: block_hash_def hex_encode_inj)
qed

end
