(* ===== verification/Wallet.thy ===== *)
theory Wallet
  imports Chain
begin

text \<open>
  The class \<^verbatim>\<open>Wallet\<close> of src/index.ts (lines 89--112) and the script at its end
  (lines 115--123). The constructor's key pair comes from
  \<^verbatim>\<open>crypto.generateKeyPairSync\<close>, a primitive with no inputs the program controls, so
  it is an input pair \<open>(publicKey, privateKey)\<close> of \<open>wallet_new\<close>.
  \<^verbatim>\<open>sendMoney\<close> builds the transaction with the wallet's public key as payer, signs
  its canonical encoding with the private key (which may throw) and submits it to the
  chain singleton with the wallet's public key. The script creates the chain (class
  initialisation, before any wallet), three wallets, and makes three payments; an
  exception ends the script, which \<open>then_run\<close> propagates, and a payment whose mining
  never returns never reaches the next one. Each block creation draws a random number and
  reads the clock: the script takes these draws as inputs.
\<close>

record wallet =
  publicKey :: string
  privateKey :: string

definition wallet_new :: "string \<times> string \<Rightarrow> wallet" where
  "wallet_new kp = \<lparr>publicKey = fst kp, privateKey = snd kp\<rparr>"

definition send_money ::
  "crypto \<Rightarrow> nat \<Rightarrow> nat \<Rightarrow> wallet \<Rightarrow> int \<Rightarrow> string \<Rightarrow> chain_state
   \<Rightarrow> (js_error + chain_state) option" where
  "send_money cr rnd now w amt payee_key st =
     (let tx = \<lparr>amount = amt, payer = publicKey w, payee = payee_key\<rparr> in
      case sign_msg cr (tx_to_string tx) (privateKey w) of
        Inl e \<Rightarrow> Some (Inl (CryptoError e))
      | Inr sig \<Rightarrow> add_block cr rnd now tx (publicKey w) sig st)"

definition then_run ::
  "(js_error + chain_state) option \<Rightarrow> (chain_state \<Rightarrow> (js_error + chain_state) option)
   \<Rightarrow> (js_error + chain_state) option" where
  "then_run r f = (case r of None \<Rightarrow> None | Some (Inl e) \<Rightarrow> Some (Inl e) | Some (Inr st) \<Rightarrow> f st)"

definition main_script ::
  "crypto \<Rightarrow> nat \<times> nat \<Rightarrow> nat \<times> nat \<Rightarrow> nat \<times> nat \<Rightarrow> nat \<times> nat
   \<Rightarrow> string \<times> string \<Rightarrow> string \<times> string \<Rightarrow> string \<times> string
   \<Rightarrow> (js_error + chain_state) option" where
  "main_script cr g d1 d2 d3 k_satoshi k_bob k_alice =
     (let st0 = chain_new (fst g) (snd g);
          satoshi = wallet_new k_satoshi;
          bob = wallet_new k_bob;
          alice = wallet_new k_alice
      in then_run
           (then_run
             (send_money cr (fst d1) (snd d1) satoshi 50 (publicKey bob) st0)
             (send_money cr (fst d2) (snd d2) bob 23 (publicKey alice)))
           (send_money cr (fst d3) (snd d3) alice 5 (publicKey bob)))"

text \<open>
  \<open>signs_for cr kp m\<close> says that the key pair \<open>kp\<close> (public, private) works for the
  message \<open>m\<close>: signing does not throw and the signature verifies under the public key.
\<close>

definition signs_for :: "crypto \<Rightarrow> string \<times> string \<Rightarrow> string \<Rightarrow> bool" where
  "signs_for cr kp m \<longleftrightarrow>
     (case sign_msg cr m (snd kp) of Inl _ \<Rightarrow> False | Inr sig \<Rightarrow> verify_sig cr m (fst kp) sig = Inr True)"

subsection \<open>Payments\<close>

lemma send_money_eq [ledger_simps]:
  "sign_msg cr (tx_to_string \<lparr>amount = amt, payer = publicKey w, payee = payee_key\<rparr>) (privateKey w)
     = Inr sig \<Longrightarrow>
   send_money cr rnd now w amt payee_key st =
     add_block cr rnd now \<lparr>amount = amt, payer = publicKey w, payee = payee_key\<rparr> (publicKey w) sig st"
  by (simp add: send_money_def)

lemma then_run_Inr [simp]: "then_run (Some (Inr st)) f = f st"
  by (simp add: then_run_def)

text \<open>C14: sendMoney with a key pair whose signature verifies appends one block whose transaction has the wallet's public key as payer, when mining returns.\<close>

theorem send_money_appends:
  assumes "sign_msg cr (tx_to_string \<lparr>amount = amt, payer = publicKey w, payee = pk\<rparr>) (privateKey w) = Inr sig"
    and "verify_sig cr (tx_to_string \<lparr>amount = amt, payer = publicKey w, payee = pk\<rparr>) (publicKey w) sig = Inr True"
    and "chain st \<noteq> []" and "mine cr (random_nonce rnd) = Some s"
  shows "send_money cr rnd now w amt pk st =
    Some (Inr (st\<lparr>chain := chain st @ [\<lparr>prevHash = block_hash cr (last (chain st)),
       transaction = \<lparr>amount = amt, payer = publicKey w, payee = pk\<rparr>, ts = now, nonce = random_nonce rnd\<rparr>]\<rparr>))"
  using assms by (simp add: send_money_eq add_block_valid_mined block_new_def)

lemma then_run_Some_Inr:
  "then_run r f = Some (Inr st') \<Longrightarrow> \<exists>st. r = Some (Inr st) \<and> f st = Some (Inr st')"
  by (auto simp: then_run_def split: option.splits sum.splits)

lemma send_money_ledger:
  assumes "signs_for cr (k_pub, k_priv) (tx_to_string \<lparr>amount = amt, payer = k_pub, payee = pk\<rparr>)"
    and "send_money cr rnd now (wallet_new (k_pub, k_priv)) amt pk st = Some (Inr st')"
  shows "ledger_abs st' = ledger_abs st @ [\<lparr>amount = amt, payer = k_pub, payee = pk\<rparr>]"
proof -
  let ?tx = "\<lparr>amount = amt, payer = k_pub, payee = pk\<rparr>"
  obtain sig where s: "sign_msg cr (tx_to_string ?tx) k_priv = Inr sig"
    and v: "verify_sig cr (tx_to_string ?tx) k_pub sig = Inr True"
    using assms(1) by (auto simp: signs_for_def split: sum.splits)
  with assms(2) have "add_block cr rnd now ?tx k_pub sig st = Some (Inr st')"
    by (simp add: send_money_def wallet_new_def)
  then show ?thesis
    by (rule add_block_Inr_cases) (simp_all add: v ledger_abs_def block_new_def)
qed

text \<open>C17: When the three key pairs work for the script's three payments and the script
  returns normally, the ledger holds exactly the genesis transaction and the three
  payments, in the script's order, each with the sender's public key as payer.\<close>

theorem main_script_ledger:
  assumes "signs_for cr ks (tx_to_string \<lparr>amount = 50, payer = fst ks, payee = fst kb\<rparr>)"
    and "signs_for cr kb (tx_to_string \<lparr>amount = 23, payer = fst kb, payee = fst ka\<rparr>)"
    and "signs_for cr ka (tx_to_string \<lparr>amount = 5, payer = fst ka, payee = fst kb\<rparr>)"
    and run: "main_script cr g d1 d2 d3 ks kb ka = Some (Inr st)"
  shows "ledger_abs st =
    [genesis_tx, \<lparr>amount = 50, payer = fst ks, payee = fst kb\<rparr>,
     \<lparr>amount = 23, payer = fst kb, payee = fst ka\<rparr>, \<lparr>amount = 5, payer = fst ka, payee = fst kb\<rparr>]"
proof -
  let ?st0 = "chain_new (fst g) (snd g)"
  from run obtain st1 st2 where
      s1: "send_money cr (fst d1) (snd d1) (wallet_new ks) 50 (fst kb) ?st0 = Some (Inr st1)"
    and s2: "send_money cr (fst d2) (snd d2) (wallet_new kb) 23 (fst ka) st1 = Some (Inr st2)"
    and s3: "send_money cr (fst d3) (snd d3) (wallet_new ka) 5 (fst kb) st2 = Some (Inr st)"
    unfolding main_script_def Let_def by (auto simp: wallet_new_def dest!: then_run_Some_Inr)
  have l1: "ledger_abs st1 = ledger_abs ?st0 @ [\<lparr>amount = 50, payer = fst ks, payee = fst kb\<rparr>]"
    using send_money_ledger [of cr "fst ks" "snd ks"] assms(1) s1 by simp
  have l2: "ledger_abs st2 = ledger_abs st1 @ [\<lparr>amount = 23, payer = fst kb, payee = fst ka\<rparr>]"
    using send_money_ledger [of cr "fst kb" "snd kb"] assms(2) s2 by simp
  have l3: "ledger_abs st = ledger_abs st2 @ [\<lparr>amount = 5, payer = fst ka, payee = fst kb\<rparr>]"
    using send_money_ledger [of cr "fst ka" "snd ka"] assms(3) s3 by simp
  have "ledger_abs ?st0 = [genesis_tx]" by (simp add: ledger_abs_def chain_new_def block_new_def)
  with l1 l2 l3 show ?thesis by simp
qed

end
