(* ===== verification/Spec2Isabelle.thy ===== *)
theory Spec2Isabelle
  imports Wallet
begin

text \<open>
  \<^bold>\<open>A verified model of MYFirstBlockChain (src/index.ts).\<close>

  \<^bold>\<open>The program.\<close> One TypeScript file. \<^verbatim>\<open>Transaction\<close> (lines 4--15) is
  an amount, a payer key and a payee key, with \<^verbatim>\<open>toString\<close> =
  \<^verbatim>\<open>JSON.stringify\<close>. \<^verbatim>\<open>Block\<close> (18--34) holds the previous hash, a transaction,
  a timestamp and a random nonce; its \<^verbatim>\<open>hash\<close> getter is the SHA-256 hex digest of
  its JSON. \<^verbatim>\<open>Chain\<close> (37--86) is a process-wide singleton holding the block array,
  created with a genesis block; \<^verbatim>\<open>mine\<close> searches for the least counter whose MD5
  digest of \<^verbatim>\<open>nonce + counter\<close> starts with \<^verbatim>\<open>0000\<close>; \<^verbatim>\<open>addBlock\<close>
  verifies an RSA/SHA-256 signature over the transaction's JSON under a key the caller
  supplies, builds a block linked to the last one, mines, and appends. \<^verbatim>\<open>Wallet\<close>
  (89--112) generates a key pair and \<^verbatim>\<open>sendMoney\<close> signs a transaction and calls
  \<^verbatim>\<open>addBlock\<close>; lines 115--123 run three payments. Calls flow
  Wallet \<open>\<rightarrow>\<close> Chain \<open>\<rightarrow>\<close> Block \<open>\<rightarrow>\<close> Transaction; the Chain singleton is the
  only shared state.

  \<^bold>\<open>The theories.\<close>
  \<^item> Prelude: byte type, decimal and hexadecimal digits, prefix stripping, the
    collections \<open>encode_defs\<close>, \<open>decode_simps\<close> and \<open>ledger_simps\<close>.
  \<^item> Json: \<^verbatim>\<open>JSON.stringify\<close> as the program reaches it (string quoting, integer
    numbers, objects in insertion order) with decoders and round trips.
  \<^item> Hex: \<^verbatim>\<open>digest('hex')\<close>, its inverse (so the rendering is injective), and
    the mining test as two zero bytes,
    equivalently a big-endian value below \<open>2\<^sup>112\<close> for MD5's 16 bytes.
  \<^item> Crypto: the primitives of Node's \<^verbatim>\<open>crypto\<close> as the parameter record
    \<open>crypto\<close> (SHA-256, MD5, sign and verify, the last two may throw), and an executable
    stand-in \<open>toy_crypto\<close> used only by the witnesses.
  \<^item> Transaction: the record, \<open>tx_to_string\<close>, its decoder and injectivity (C11).
  \<^item> Block: the record, \<open>random_nonce\<close> (\<^verbatim>\<open>Math.round(Math.random() * 999999999)\<close>
    over a draw \<open>k / 2\<^sup>53\<close>), \<open>block_new\<close> (the constructor, with the clock reading
    and the draw as inputs), \<open>block_json\<close> and \<open>block_hash\<close>; the encoding decodes
    back to the block (C10), so the encoding is injective.
  \<^item> Mine: \<open>mine\<close> as \<^theory_text>\<open>partial_function (option)\<close> (\<open>None\<close> = never returns),
    characterised exactly (C5, C6), and the test's meaning (C12).
  \<^item> Chain: \<open>chain_state\<close> for the singleton, \<open>chain_new\<close>, \<open>last_block\<close>,
    \<open>add_block\<close> returning \<open>(js_error + chain_state) option\<close>. Lemmas on every branch:
    append (C2), rejection (C3), exception on an unparsable key (C4), divergence (C7), the
    discarded solution (C13), append-only (C16). The inductive \<open>ledger_step\<close> / \<open>reachable\<close> give the
    invariant \<open>chain_valid\<close> by rule induction: linkage (C1), genesis (C8), nonce range
    (C15). \<open>ledger_abs\<close> maps a chain to its transaction list, and \<open>add_block\<close>
    refines the abstract \<open>ledger_submit\<close> (C9). Integrity of the linkage: a
    linked chain with a block replaced by a different one stays linked only through a
    SHA-256 collision between two distinct block encodings (C18).
  \<^item> Wallet: \<open>wallet_new\<close>, \<open>send_money\<close> (C14) and \<open>main_script\<close>; when
    the key pairs sign their payments (\<open>signs_for\<close>), every normal run of the script
    leaves exactly the genesis transaction and the three payments, in order (C17).
  \<^item> This theory: the demonstration inputs and the witnesses, each applying its claim
    at a concrete input under \<open>toy_crypto\<close>.

  \<^bold>\<open>Inputs and bounds.\<close> The clock (\<^verbatim>\<open>Date.now()\<close>), the random draws and the
  key pairs are inputs; the hash and signature primitives are parameters, about which
  each theorem assumes only what its hypotheses say at the inputs it concerns. Amounts
  are integers; \<^verbatim>\<open>JSON.stringify\<close> prints them in plain decimal, which is what
  JavaScript does for integer-valued numbers below \<open>10\<^sup>21\<close>. The mining loop has no
  bound in the code, so it has none here: \<open>mine\<close> returns exactly when a solution
  exists, and diverges (the value \<open>None\<close>) exactly when none does.
  The counter is a natural number; JavaScript's is exact below \<open>2\<^sup>53\<close>, far beyond
  any run.

  \<^bold>\<open>Plan.\<close> Built first: the data and operations of every class, the chain invariant
  and the behaviour of \<^verbatim>\<open>addBlock\<close> on each branch, the mining loop, the encodings.
  Next: the interleaving the spec warns about in section 5 (two submissions that both
  read the tail before either appends) as explicit step sequences, with the linkage
  failure it causes and its absence under serialised calls; the MD5 and SHA-256
  compression functions over \<open>32 word\<close> as executable instances of the digest
  parameters, checked against the standard test vectors; a decoder for the whole JSON
  subset the encoder writes.

  \<^bold>\<open>Not modelled.\<close> SHA-256, MD5, RSA and key generation (library primitives,
  parameters here); \<^verbatim>\<open>console.log\<close> output; the double rounding of
  \<^verbatim>\<open>Math.random() * 999999999\<close> (computed exactly here); non-integer amounts.
\<close>

text \<open>
  Demonstration inputs for the witnesses: alice's payment to bob signed with the stand-in
  scheme, the chain after it is appended to a fresh chain (draw 0, clock 0 and 1), and a
  stand-in whose MD5 never hits, so that mining never returns.
\<close>

definition demo_tx :: transaction where
  "demo_tx = \<lparr>amount = 50, payer = ''alice'', payee = ''bob''\<rparr>"

definition demo_sig :: "byte list" where
  "demo_sig = toy_bytes (''sk:alice'' @ tx_to_string demo_tx)"

definition demo_state :: chain_state where
  "demo_state = \<lparr>chain = [block_new [] genesis_tx 0 0,
     block_new (block_hash toy_crypto (block_new [] genesis_tx 0 0)) demo_tx 0 1]\<rparr>"

definition dead_crypto :: crypto where
  "dead_crypto = toy_crypto\<lparr>md5 := \<lambda>_. [1, 1] @ replicate 14 0\<rparr>"

lemma demo_verify: "verify_sig toy_crypto (tx_to_string demo_tx) ''alice'' demo_sig = Inr True"
  by (simp add: toy_verify_def demo_sig_def)

lemma demo_add: "add_block toy_crypto 0 1 demo_tx ''alice'' demo_sig (chain_new 0 0) = Some (Inr demo_state)"
  by (simp add: add_block_valid_mined [OF demo_verify] mine_toy0 chain_new_def demo_state_def)

lemma demo_reachable: "reachable toy_crypto demo_state"
  by (rule reachable.step [OF reachable.init [of 0 toy_crypto 0] ledger_step.submit [OF _ demo_add]]) simp_all

lemma wrong_key: "verify_sig toy_crypto (tx_to_string demo_tx) ''alice''
   (toy_bytes (''sk:mallory'' @ tx_to_string demo_tx)) = Inr False"
  by (simp add: toy_verify_def toy_bytes_def)

lemma dead_never_hits: "\<not> mine_hit dead_crypto n k"
  by (simp add: mine_hit_def dead_crypto_def hex_encode_def hex_byte_def hex_digit_def char_of_eq_iff)

lemma toy_script_runs:
  "\<exists>st. main_script toy_crypto (0, 0) (0, 1) (0, 2) (0, 3)
          (''satoshi'', ''sk:satoshi'') (''bob'', ''sk:bob'') (''alice'', ''sk:alice'') = Some (Inr st)"
  by (simp add: main_script_def wallet_new_def send_money_def Let_def toy_sign_def
      toy_verify_def ledger_simps mine_toy0 chain_new_def block_new_def)

subsection \<open>Witnesses\<close>

theorem reachable_linked_nth_witness:
  "reachable toy_crypto demo_state \<and> 0 < (1::nat) \<and> 1 < length (chain demo_state) \<and>
   prevHash (chain demo_state ! 1) = block_hash toy_crypto (chain demo_state ! (1 - 1))"
  using reachable_linked_nth [OF demo_reachable, of 1] demo_reachable by (simp add: demo_state_def)

theorem add_block_appends_witness:
  "verify_sig toy_crypto (tx_to_string demo_tx) ''alice'' demo_sig = Inr True \<and>
   chain (chain_new 0 0) \<noteq> [] \<and> mine_hit toy_crypto (random_nonce 0) 5 \<and> (1::nat) \<le> 5 \<and>
   (\<exists>st'. add_block toy_crypto 0 1 demo_tx ''alice'' demo_sig (chain_new 0 0) = Some (Inr st') \<and>
     chain st' = chain (chain_new 0 0) @ [\<lparr>prevHash = block_hash toy_crypto (last (chain (chain_new 0 0))),
        transaction = demo_tx, ts = 1, nonce = random_nonce 0\<rparr>])"
proof -
  have h: "chain (chain_new 0 0) \<noteq> []" by (simp add: chain_new_def)
  have m: "mine_hit toy_crypto (random_nonce 0) 5" using toy_hits0(5) by simp
  show ?thesis using add_block_appends [OF demo_verify h m, of 1] demo_verify h m by simp
qed

theorem add_block_invalid_witness:
  "verify_sig toy_crypto (tx_to_string demo_tx) ''alice'' (toy_bytes (''sk:mallory'' @ tx_to_string demo_tx)) = Inr False \<and>
   add_block toy_crypto 0 1 demo_tx ''alice'' (toy_bytes (''sk:mallory'' @ tx_to_string demo_tx)) (chain_new 0 0)
     = Some (Inr (chain_new 0 0))"
  using add_block_invalid [OF wrong_key] wrong_key by simp

theorem add_block_throws_witness:
  "verify_sig toy_crypto (tx_to_string demo_tx) [] demo_sig = Inl ''ERR_OSSL_PEM'' \<and>
   add_block toy_crypto 0 1 demo_tx [] demo_sig (chain_new 0 0) = Some (Inl (CryptoError ''ERR_OSSL_PEM''))"
proof -
  have v: "verify_sig toy_crypto (tx_to_string demo_tx) [] demo_sig = Inl ''ERR_OSSL_PEM''"
    by (simp add: toy_verify_def)
  show ?thesis using add_block_throws [OF v] v by simp
qed

theorem mine_Some_iff_witness:
  "mine toy_crypto 3 = Some 2 \<and> mine_hit toy_crypto 3 2 \<and> \<not> mine_hit toy_crypto 3 1"
  using mine_Some_iff [of toy_crypto 3 2] mine_toy by auto

theorem mine_None_iff_witness: "mine dead_crypto 0 = None"
  using mine_None_iff [of dead_crypto 0] dead_never_hits by simp

theorem add_block_diverges_witness:
  "verify_sig dead_crypto (tx_to_string demo_tx) ''alice'' demo_sig = Inr True \<and>
   chain (chain_new 0 0) \<noteq> [] \<and> add_block dead_crypto 0 1 demo_tx ''alice'' demo_sig (chain_new 0 0) = None"
proof -
  have v: "verify_sig dead_crypto (tx_to_string demo_tx) ''alice'' demo_sig = Inr True"
    using demo_verify by (simp add: dead_crypto_def)
  have h: "chain (chain_new 0 0) \<noteq> []" by (simp add: chain_new_def)
  have d: "\<forall>k \<ge> 1. \<not> mine_hit dead_crypto (random_nonce 0) k" by (simp add: dead_never_hits)
  show ?thesis using add_block_diverges [OF v h d] v h by simp
qed

theorem reachable_genesis_witness:
  "reachable toy_crypto (chain_new 0 0) \<and> chain (chain_new 0 0) \<noteq> [] \<and>
   prevHash (hd (chain (chain_new 0 0))) = [] \<and> transaction (hd (chain (chain_new 0 0))) = genesis_tx"
proof -
  have r: "reachable toy_crypto (chain_new 0 0)" by (rule reachable.init) simp
  show ?thesis using reachable_genesis [OF r] r by simp
qed

theorem add_block_refines_witness:
  "add_block toy_crypto 0 1 demo_tx ''alice'' demo_sig (chain_new 0 0) = Some (Inr demo_state) \<and>
   ledger_abs demo_state = ledger_submit True demo_tx (ledger_abs (chain_new 0 0))"
  using add_block_refines [OF demo_add] demo_add demo_verify by simp

theorem mine_hit_leading_bits_witness:
  "length (md5 toy_crypto (js_number_to_string (int (0 + 5)))) = 16 \<and>
   (mine_hit toy_crypto 0 5 \<longleftrightarrow> be_value (md5 toy_crypto (js_number_to_string (int (0 + 5)))) < 2 ^ 112)"
proof -
  have l: "length (md5 toy_crypto (js_number_to_string (int (0 + 5)))) = 16"
    by (simp add: toy_md5_def)
  show ?thesis using mine_hit_leading_bits [OF l] l by simp
qed

theorem add_block_ignores_solution_witness:
  "add_block toy_crypto 0 1 demo_tx ''alice'' demo_sig (chain_new 0 0) = Some (Inr demo_state) \<and>
   add_block (toy_crypto\<lparr>md5 := \<lambda>_. [0, 0] @ replicate 14 0\<rparr>) 0 1 demo_tx ''alice'' demo_sig (chain_new 0 0)
     = Some (Inr demo_state)"
proof -
  let ?cr = "toy_crypto\<lparr>md5 := \<lambda>_. [0, 0] @ replicate 14 0\<rparr>"
  have hit: "mine_hit ?cr 0 1"
    by (simp add: mine_hit_def hex_encode_def hex_byte_def hex_digit_def char_of_eq_iff)
  have "mine ?cr 0 = Some 1" unfolding mine_def by (rule mine_from_hit [OF hit])
  moreover have "verify_sig ?cr (tx_to_string demo_tx) ''alice'' demo_sig = Inr True"
    using demo_verify by (simp add: toy_crypto_def)
  ultimately have a2: "add_block ?cr 0 1 demo_tx ''alice'' demo_sig (chain_new 0 0)
     = Some (Inr (chain_new 0 0\<lparr>chain := chain (chain_new 0 0)
          @ [block_new (block_hash ?cr (last (chain (chain_new 0 0)))) demo_tx 0 1]\<rparr>))"
    by (simp add: add_block_valid_mined chain_new_def)
  have same: "block_hash ?cr = block_hash toy_crypto"
    by (simp add: block_hash_def fun_eq_iff toy_crypto_def)
  have a2': "add_block ?cr 0 1 demo_tx ''alice'' demo_sig (chain_new 0 0) = Some (Inr demo_state)"
    using a2 same by (simp add: chain_new_def demo_state_def)
  have "demo_state = demo_state"
    using add_block_ignores_solution [OF demo_add a2'] .
  with demo_add a2' show ?thesis by simp
qed

theorem reachable_nonce_bound_witness:
  "reachable toy_crypto demo_state \<and> block_new [] genesis_tx 0 0 \<in> set (chain demo_state) \<and>
   nonce (block_new [] genesis_tx 0 0) \<le> 999999999"
  using reachable_nonce_bound [OF demo_reachable, of "block_new [] genesis_tx 0 0"] demo_reachable
  by (simp add: demo_state_def)

theorem send_money_appends_witness:
  "sign_msg toy_crypto (tx_to_string \<lparr>amount = 50, payer = ''alice'', payee = ''bob''\<rparr>) ''sk:alice'' = Inr demo_sig \<and>
   verify_sig toy_crypto (tx_to_string \<lparr>amount = 50, payer = ''alice'', payee = ''bob''\<rparr>) ''alice'' demo_sig = Inr True \<and>
   chain (chain_new 0 0) \<noteq> [] \<and> mine toy_crypto (random_nonce 0) = Some 5 \<and>
   send_money toy_crypto 0 1 \<lparr>publicKey = ''alice'', privateKey = ''sk:alice''\<rparr> 50 ''bob'' (chain_new 0 0)
     = Some (Inr demo_state)"
proof -
  let ?w = "\<lparr>publicKey = ''alice'', privateKey = ''sk:alice''\<rparr>"
  have s: "sign_msg toy_crypto (tx_to_string \<lparr>amount = 50, payer = publicKey ?w, payee = ''bob''\<rparr>) (privateKey ?w) = Inr demo_sig"
    by (simp add: toy_sign_def demo_sig_def demo_tx_def)
  have v: "verify_sig toy_crypto (tx_to_string \<lparr>amount = 50, payer = publicKey ?w, payee = ''bob''\<rparr>) (publicKey ?w) demo_sig = Inr True"
    using demo_verify by (simp add: demo_tx_def)
  have h: "chain (chain_new 0 0) \<noteq> []" by (simp add: chain_new_def)
  have m: "mine toy_crypto (random_nonce 0) = Some 5" by (simp add: mine_toy0)
  show ?thesis
    using send_money_appends [OF s v h m, of 1] s v h m
    by (simp add: demo_state_def chain_new_def block_new_def demo_tx_def)
qed

theorem add_block_append_only_witness:
  "add_block toy_crypto 0 1 demo_tx ''alice'' demo_sig (chain_new 0 0) = Some (Inr demo_state) \<and>
   (\<exists>new. chain demo_state = chain (chain_new 0 0) @ new \<and> length new \<le> 1)"
  using add_block_append_only [OF demo_add] demo_add by simp

theorem main_script_ledger_witness:
  "signs_for toy_crypto (''satoshi'', ''sk:satoshi'')
     (tx_to_string \<lparr>amount = 50, payer = ''satoshi'', payee = ''bob''\<rparr>) \<and>
   signs_for toy_crypto (''bob'', ''sk:bob'') (tx_to_string \<lparr>amount = 23, payer = ''bob'', payee = ''alice''\<rparr>) \<and>
   signs_for toy_crypto (''alice'', ''sk:alice'') (tx_to_string \<lparr>amount = 5, payer = ''alice'', payee = ''bob''\<rparr>) \<and>
   (\<exists>st. main_script toy_crypto (0, 0) (0, 1) (0, 2) (0, 3)
          (''satoshi'', ''sk:satoshi'') (''bob'', ''sk:bob'') (''alice'', ''sk:alice'') = Some (Inr st) \<and>
     ledger_abs st = [genesis_tx, \<lparr>amount = 50, payer = ''satoshi'', payee = ''bob''\<rparr>,
       \<lparr>amount = 23, payer = ''bob'', payee = ''alice''\<rparr>, \<lparr>amount = 5, payer = ''alice'', payee = ''bob''\<rparr>])"
proof -
  have s1: "signs_for toy_crypto (''satoshi'', ''sk:satoshi'')
     (tx_to_string \<lparr>amount = 50, payer = ''satoshi'', payee = ''bob''\<rparr>)"
    and s2: "signs_for toy_crypto (''bob'', ''sk:bob'') (tx_to_string \<lparr>amount = 23, payer = ''bob'', payee = ''alice''\<rparr>)"
    and s3: "signs_for toy_crypto (''alice'', ''sk:alice'') (tx_to_string \<lparr>amount = 5, payer = ''alice'', payee = ''bob''\<rparr>)"
    by (simp_all add: signs_for_def toy_sign_def toy_verify_def)
  obtain st where run: "main_script toy_crypto (0, 0) (0, 1) (0, 2) (0, 3)
          (''satoshi'', ''sk:satoshi'') (''bob'', ''sk:bob'') (''alice'', ''sk:alice'') = Some (Inr st)"
    using toy_script_runs by blast
  show ?thesis
    using main_script_ledger [of toy_crypto "(''satoshi'', ''sk:satoshi'')" "(''bob'', ''sk:bob'')"
        "(''alice'', ''sk:alice'')", simplified, OF s1 s2 s3 run] s1 s2 s3 run by blast
qed

theorem tamper_needs_collision_witness:
  "linked toy_crypto ([] @ block_new [] genesis_tx 0 0 # block_new (block_hash toy_crypto (block_new [] genesis_tx 0 0)) demo_tx 0 1 # []) \<and>
   linked toy_crypto ([] @ block_new [] genesis_tx 0 1 # block_new (block_hash toy_crypto (block_new [] genesis_tx 0 0)) demo_tx 0 1 # []) \<and>
   block_new [] genesis_tx 0 1 \<noteq> block_new [] genesis_tx 0 0 \<and>
   block_json (block_new [] genesis_tx 0 1) \<noteq> block_json (block_new [] genesis_tx 0 0) \<and>
   sha256 toy_crypto (block_json (block_new [] genesis_tx 0 1)) = sha256 toy_crypto (block_json (block_new [] genesis_tx 0 0))"
proof -
  let ?b = "block_new [] genesis_tx 0 0" and ?b' = "block_new [] genesis_tx 0 1"
  let ?c = "block_new (block_hash toy_crypto ?b) demo_tx 0 1"
  have same: "block_hash toy_crypto ?b' = block_hash toy_crypto ?b"
    by (simp add: block_hash_def toy_sha256_def block_json_eq block_new_def js_number_to_string_def
        nat_digits.simps)
  have l1: "linked toy_crypto ([] @ ?b # ?c # [])" by (simp add: block_new_def)
  have l2: "linked toy_crypto ([] @ ?b' # ?c # [])" using same by (simp add: block_new_def)
  have ne: "?b' \<noteq> ?b" by (simp add: block_new_def)
  show ?thesis using tamper_needs_collision [OF l1 l2 ne] l1 l2 ne by blast
qed

end
